theory Spec2Isabelle
  imports Complex_Main
begin

section \<open>JavaScript values used by the quiz\<close>

text \<open>
  The quiz (\<^verbatim>\<open>script.js\<close>) only compares numbers, takes their maximum and minimum and prints
  integers. A JavaScript number is a finite value, one of the two infinities, or NaN; the finite
  values are read as reals, on which the comparisons, \<^verbatim>\<open>Math.max\<close> and \<^verbatim>\<open>Math.min\<close> are exact.
  The sign of zero is not represented (no operation of the quiz observes it).
\<close>

datatype jsnum = Fin real | PosInf | NegInf | NaN

text \<open>A coordinate read from a point is a number or \<^verbatim>\<open>undefined\<close>.\<close>

datatype jsval = JUndefined | JNum jsnum

fun ToNumber :: "jsval \<Rightarrow> jsnum" where
  "ToNumber JUndefined = NaN"
| "ToNumber (JNum n) = n"

text \<open>
  The abstract relational comparison \<^verbatim>\<open>x < y\<close> of the language: \<open>None\<close> is its result
  \<^verbatim>\<open>undefined\<close>, returned when an operand is NaN.
\<close>

fun IsLessThan :: "jsnum \<Rightarrow> jsnum \<Rightarrow> bool option" where
  "IsLessThan NaN y = None"
| "IsLessThan x NaN = None"
| "IsLessThan (Fin a) (Fin b) = Some (a < b)"
| "IsLessThan (Fin a) PosInf = Some True"
| "IsLessThan (Fin a) NegInf = Some False"
| "IsLessThan PosInf y = Some False"
| "IsLessThan NegInf (Fin b) = Some True"
| "IsLessThan NegInf PosInf = Some True"
| "IsLessThan NegInf NegInf = Some False"

text \<open>\<^verbatim>\<open>x <= y\<close> is "not \<^verbatim>\<open>y < x\<close>, and defined"; \<^verbatim>\<open>x >= y\<close> is "not \<^verbatim>\<open>x < y\<close>, and defined".\<close>

definition js_le :: "jsnum \<Rightarrow> jsnum \<Rightarrow> bool" where
  "js_le x y = (case IsLessThan y x of Some False \<Rightarrow> True | _ \<Rightarrow> False)"

definition js_ge :: "jsnum \<Rightarrow> jsnum \<Rightarrow> bool" where
  "js_ge x y = (case IsLessThan x y of Some False \<Rightarrow> True | _ \<Rightarrow> False)"

definition Math_max :: "jsnum \<Rightarrow> jsnum \<Rightarrow> jsnum" where
  "Math_max x y = (case IsLessThan x y of None \<Rightarrow> NaN | Some True \<Rightarrow> y | Some False \<Rightarrow> x)"

definition Math_min :: "jsnum \<Rightarrow> jsnum \<Rightarrow> jsnum" where
  "Math_min x y = (case IsLessThan y x of None \<Rightarrow> NaN | Some True \<Rightarrow> y | Some False \<Rightarrow> x)"

fun isFinite :: "jsnum \<Rightarrow> bool" where
  "isFinite (Fin a) = True"
| "isFinite PosInf = False"
| "isFinite NegInf = False"
| "isFinite NaN = False"

section \<open>Bounds logic\<close>

record box =
  north :: jsnum
  south :: jsnum
  east :: jsnum
  west :: jsnum

text \<open>A clicked point, as its accessors \<^verbatim>\<open>lat()\<close> and \<^verbatim>\<open>lng()\<close> return it.\<close>

record latlng =
  lat :: jsval
  lng :: jsval

definition normalizeBounds :: "box \<Rightarrow> box" where
  "normalizeBounds b =
     \<lparr> north = Math_max (north b) (south b),
       south = Math_min (north b) (south b),
       east = Math_max (east b) (west b),
       west = Math_min (east b) (west b) \<rparr>"

definition pointInBounds :: "latlng \<Rightarrow> box \<Rightarrow> bool" where
  "pointInBounds latLng b =
     (let bb = normalizeBounds b;
          lat' = ToNumber (lat latLng);
          lng' = ToNumber (lng latLng)
      in js_le lat' (north bb) \<and> js_ge lat' (south bb) \<and>
         js_le lng' (east bb) \<and> js_ge lng' (west bb))"





text \<open>The box is finite when its four coordinates are.\<close>

definition finite_box :: "box \<Rightarrow> bool" where
  "finite_box b = (isFinite (north b) \<and> isFinite (south b) \<and> isFinite (east b) \<and> isFinite (west b))"

section \<open>Game constants and state\<close>

definition TOTAL_QUESTIONS :: int where
  "TOTAL_QUESTIONS = 5"

definition BEST_KEY :: string where
  "BEST_KEY = ''csun_map_quiz_best_seconds''"

record location =
  name :: string
  bounds :: box

text \<open>
  The table of locations. Each coordinate is the number that the decimal literal of the source
  denotes, that is the double nearest to it, written as an exact fraction. The literals are:
  \<^item> Black House: north 34.244278, south 34.244069, east -118.533368, west -118.533626
  \<^item> Chaparral Hall: north 34.238634, south 34.237832, east -118.526679, west -118.527306
  \<^item> Matador Track Stadium: north 34.247868, south 34.246043, east -118.525570, west -118.52730
  \<^item> Sierra Hall: north 34.238561, south 34.238056, east -118.529978, west -118.531517
  \<^item> Bookstein Hall: north 34.242471, south 34.241471, east -118.529919, west -118.531159
\<close>

definition LOCATIONS :: "location list" where
  "LOCATIONS =
     [\<lparr> name = ''Black House'',
         bounds = \<lparr> north = Fin (4819453676261615 / 2 ^ 47), south = Fin (4819424262126549 / 2 ^ 47),
                    east = Fin (- (1042630531163613 / 2 ^ 43)), west = Fin (- (4170531202222451 / 2 ^ 45)) \<rparr> \<rparr>,
       \<lparr> name = ''Chaparral Hall'',
         bounds = \<lparr> north = Fin (4818659353877337 / 2 ^ 47), south = Fin (1204636620602919 / 2 ^ 45),
                    east = Fin (- (2085143388194775 / 2 ^ 44)), west = Fin (- (8340617673981699 / 2 ^ 46)) \<rparr> \<rparr>,
       \<lparr> name = ''Matador Track Stadium'',
         bounds = \<lparr> north = Fin (2409979461922405 / 2 ^ 46), south = Fin (2409851038964281 / 2 ^ 46),
                    east = Fin (- (8340495513841807 / 2 ^ 46)), west = Fin (- (4170308625884617 / 2 ^ 45)) \<rparr> \<rparr>,
       \<lparr> name = ''Sierra Hall'',
         bounds = \<lparr> north = Fin (4818649080040687 / 2 ^ 47), south = Fin (1204644501902267 / 2 ^ 45),
                    east = Fin (- (4170402849633071 / 2 ^ 45)), west = Fin (- (8340913996763431 / 2 ^ 46)) \<rparr> \<rparr>,
       \<lparr> name = ''Bookstein Hall'',
         bounds = \<lparr> north = Fin (4819199363620157 / 2 ^ 47), south = Fin (4819058626131801 / 2 ^ 47),
                    east = Fin (- (2085200386877559 / 2 ^ 44)), west = Fin (- (1042611100594127 / 2 ^ 43)) \<rparr> \<rparr> ]"

text \<open>
  The object \<^verbatim>\<open>state\<close>. Its counters are JavaScript numbers that only ever hold integers;
  \<^verbatim>\<open>null\<close> is \<open>None\<close>. A timer handle of \<^verbatim>\<open>setInterval\<close> is a positive integer.
\<close>

record state =
  index :: int
  correct :: int
  startedAtMs :: "int option"
  timerId :: "nat option"

definition initial_state :: state where
  "initial_state = \<lparr> index = 0, correct = 0, startedAtMs = None, timerId = None \<rparr>"

text \<open>
  What the quiz owns: its state and the browser's \<^verbatim>\<open>localStorage\<close>. The map, its overlays,
  the page's text and the toast are written but never read back by the game logic, and are left
  out; so is the periodic tick, which only writes the page. Calls into them, and the storage
  calls, are taken to return normally.
\<close>

record world =
  st :: state
  localStorage :: "string \<rightharpoonup> string"

text \<open>\<^verbatim>\<open>xs[i]\<close>: \<^verbatim>\<open>undefined\<close> outside the array.\<close>

definition lookup :: "'a list \<Rightarrow> int \<Rightarrow> 'a option" where
  "lookup xs i = (if 0 \<le> i \<and> i < int (length xs) then Some (xs ! nat i) else None)"

section \<open>Integers as strings\<close>

definition digit_char :: "nat \<Rightarrow> char" where
  "digit_char d = ''0123456789'' ! d"

fun digits :: "nat \<Rightarrow> string" where
  "digits n = (if n < 10 then [digit_char n] else digits (n div 10) @ [digit_char (n mod 10)])"

text \<open>
  \<^verbatim>\<open>String(n)\<close> on an integer: its decimal digits, with a minus sign when negative. This is
  what the language prints for an integer of magnitude up to \<open>2\<^sup>5\<^sup>3\<close>, the range in which
  every integer is a number and the arithmetic of the quiz on seconds is exact; beyond it the
  language prints the shortest digits that identify the number, and from \<open>10\<^sup>2\<^sup>1\<close> on an
  exponent. The seconds of the quiz stay far below.
\<close>

definition String_js :: "int \<Rightarrow> string" where
  "String_js n = (if n < 0 then CHR ''-'' # digits (nat (- n)) else digits (nat n))"

text \<open>\<^verbatim>\<open>s.padStart(n, c)\<close> for a one-character pad string.\<close>

definition padStart :: "nat \<Rightarrow> char \<Rightarrow> string \<Rightarrow> string" where
  "padStart n c s = replicate (n - length s) c @ s"

text \<open>The remainder \<^verbatim>\<open>a % b\<close> on integers, \<open>b \<noteq> 0\<close>: it takes the sign of the dividend.\<close>

definition js_rem :: "int \<Rightarrow> int \<Rightarrow> int" where
  "js_rem a b = sgn a * (\<bar>a\<bar> mod \<bar>b\<bar>)"

text \<open>
  On an integer of magnitude up to \<open>2\<^sup>5\<^sup>3\<close>, \<^verbatim>\<open>Math.floor(totalSeconds / 60)\<close> is the
  floored quotient \<open>div\<close>: the quotient of the two doubles is rounded by less than the
  distance \<open>1/60\<close> of the exact quotient to the next integer. Beyond that range the division
  and \<^verbatim>\<open>String\<close> round, and \<open>formatTime\<close> below is not what the code prints.
\<close>

definition formatTime :: "int \<Rightarrow> string" where
  "formatTime totalSeconds =
     (let mm = padStart 2 (CHR ''0'') (String_js (totalSeconds div 60));
          ss = padStart 2 (CHR ''0'') (String_js (js_rem totalSeconds 60))
      in mm @ '':'' @ ss)"

text \<open>
  The format as the specification words it: two digits of minutes, wrapping at 60, a colon,
  two digits of seconds.
\<close>

definition two_digits :: "int \<Rightarrow> string" where
  "two_digits n = [digit_char (nat n div 10 mod 10), digit_char (nat n mod 10)]"

definition format_spec :: "int \<Rightarrow> string" where
  "format_spec seconds = two_digits ((seconds div 60) mod 60) @ '':'' @ two_digits (seconds mod 60)"

section \<open>Strings as numbers\<close>

definition digit_val :: "char \<Rightarrow> nat option" where
  "digit_val = map_of (zip ''0123456789'' [0, 1, 2, 3, 4, 5, 6, 7, 8, 9])"

fun parse_digits :: "nat \<Rightarrow> string \<Rightarrow> nat option" where
  "parse_digits acc [] = Some acc"
| "parse_digits acc (c # cs) =
     (case digit_val c of None \<Rightarrow> None | Some d \<Rightarrow> parse_digits (10 * acc + d) cs)"

text \<open>A string of decimal digits, or a minus sign and at least one digit.\<close>

definition integer_literal :: "string \<Rightarrow> int option" where
  "integer_literal raw =
     (case raw of
        [] \<Rightarrow> Some 0
      | c # cs \<Rightarrow>
          if c = CHR ''-'' then
            (if cs = [] then None else map_option (\<lambda>v. - int v) (parse_digits 0 cs))
          else map_option int (parse_digits 0 raw))"

text \<open>
  \<^verbatim>\<open>Number(raw)\<close> on a string. On an integer literal of magnitude up to \<open>2\<^sup>5\<^sup>3\<close> (every such
  integer is a number of the language; the empty string is 0) the result is that integer.
  On every other string (white space, a plus sign, fractions, exponents, other radixes,
  \<^verbatim>\<open>Infinity\<close>, integers that must be rounded, anything else) the result is left to the
  parameter \<open>ext\<close>, the conversion of the platform.
\<close>

definition Number_js :: "(string \<Rightarrow> jsnum) \<Rightarrow> string \<Rightarrow> jsnum" where
  "Number_js ext raw =
     (case integer_literal raw of
        Some v \<Rightarrow> if \<bar>v\<bar> \<le> 2 ^ 53 then Fin (real_of_int v) else ext raw
      | None \<Rightarrow> ext raw)"

section \<open>Timer and high score\<close>

definition stopTimer :: "state \<Rightarrow> state" where
  "stopTimer s = s\<lparr> timerId := None \<rparr>"

text \<open>\<open>now\<close> is what \<^verbatim>\<open>Date.now()\<close> returns, \<open>handle\<close> what \<^verbatim>\<open>setInterval\<close> returns.\<close>

definition startTimer :: "int \<Rightarrow> nat \<Rightarrow> state \<Rightarrow> state" where
  "startTimer now handle s = (stopTimer s)\<lparr> startedAtMs := Some now, timerId := Some handle \<rparr>"

text \<open>\<^verbatim>\<open>!state.startedAtMs\<close> holds for \<^verbatim>\<open>null\<close> and for 0.\<close>

definition elapsedSeconds :: "int \<Rightarrow> state \<Rightarrow> int" where
  "elapsedSeconds now s =
     (case startedAtMs s of
        None \<Rightarrow> 0
      | Some t \<Rightarrow> if t = 0 then 0 else (now - t) div 1000)"

text \<open>\<^verbatim>\<open>!raw\<close> holds for \<^verbatim>\<open>null\<close> (no item) and for the empty string.\<close>

definition getBestSeconds :: "(string \<Rightarrow> jsnum) \<Rightarrow> (string \<rightharpoonup> string) \<Rightarrow> jsnum option" where
  "getBestSeconds ext ls =
     (case ls BEST_KEY of
        None \<Rightarrow> None
      | Some raw \<Rightarrow>
          if raw = [] then None
          else (let n = Number_js ext raw in if isFinite n then Some n else None))"

definition setBestSeconds :: "int \<Rightarrow> (string \<rightharpoonup> string) \<Rightarrow> (string \<rightharpoonup> string)" where
  "setBestSeconds seconds ls = ls(BEST_KEY \<mapsto> String_js seconds)"

section \<open>The game\<close>

definition resetGame :: "int \<Rightarrow> nat \<Rightarrow> world \<Rightarrow> world" where
  "resetGame now handle w = w\<lparr> st := startTimer now handle ((st w)\<lparr> index := 0, correct := 0 \<rparr>) \<rparr>"

definition finishGame :: "(string \<Rightarrow> jsnum) \<Rightarrow> int \<Rightarrow> world \<Rightarrow> world" where
  "finishGame ext now w =
     (let w1 = w\<lparr> st := stopTimer (st w) \<rparr>;
          seconds = elapsedSeconds now (st w1);
          best = getBestSeconds ext (localStorage w1)
      in if (case best of
               None \<Rightarrow> True
             | Some b \<Rightarrow> IsLessThan (Fin (real_of_int seconds)) b = Some True)
         then w1\<lparr> localStorage := setBestSeconds seconds (localStorage w1) \<rparr>
         else w1)"

text \<open>
  A guess reaches \<open>handleAnswer\<close> as the point of a double click on the map, an object with
  both accessors; it is given here by what they return. What the call of \<open>pointInBounds\<close>
  does on any other argument is \<open>pointInBounds_call\<close>.
\<close>

definition handleAnswer :: "(string \<Rightarrow> jsnum) \<Rightarrow> latlng \<Rightarrow> int \<Rightarrow> world \<Rightarrow> world" where
  "handleAnswer ext latLng now w =
     (case lookup LOCATIONS (index (st w)) of
        None \<Rightarrow> w
      | Some loc \<Rightarrow>
          (let isCorrect = pointInBounds latLng (bounds loc);
               w1 = (if isCorrect then w\<lparr> st := (st w)\<lparr> correct := correct (st w) + 1 \<rparr> \<rparr> else w);
               w2 = w1\<lparr> st := (st w1)\<lparr> index := index (st w1) + 1 \<rparr> \<rparr>
           in if index (st w2) \<ge> TOTAL_QUESTIONS then finishGame ext now w2 else w2))"

text \<open>
  What reaches the game: a click on the reset button, or a double click on the map at a point.
  Each carries the clock reading of its moment; a reset also the handle of the new tick.
\<close>

datatype event = Reset int nat | Guess latlng int

fun step :: "(string \<Rightarrow> jsnum) \<Rightarrow> world \<Rightarrow> event \<Rightarrow> world" where
  "step ext w (Reset now handle) = resetGame now handle w"
| "step ext w (Guess latLng now) = handleAnswer ext latLng now w"

definition run :: "(string \<Rightarrow> jsnum) \<Rightarrow> world \<Rightarrow> event list \<Rightarrow> world" where
  "run ext w es = foldl (step ext) w es"

text \<open>A sequence of guesses, each with its clock reading, submitted one after the other.\<close>

fun submitAll :: "(string \<Rightarrow> jsnum) \<Rightarrow> world \<Rightarrow> (latlng \<times> int) list \<Rightarrow> world" where
  "submitAll ext w [] = w"
| "submitAll ext w ((latLng, now) # gs) = submitAll ext (handleAnswer ext latLng now w) gs"

text \<open>
  The states of the specification, read off the code: the round is finished once
  \<^verbatim>\<open>state.index >= TOTAL_QUESTIONS\<close>, the test that calls \<^verbatim>\<open>finishGame\<close>.
\<close>

datatype phase = Running | Finished

definition phase_of :: "state \<Rightarrow> phase" where
  "phase_of s = (if index s \<ge> TOTAL_QUESTIONS then Finished else Running)"

text \<open>The invariant of the specification on the counters.\<close>

definition state_inv :: "state \<Rightarrow> bool" where
  "state_inv s = (0 \<le> correct s \<and> correct s \<le> index s \<and> index s \<le> TOTAL_QUESTIONS)"

text \<open>The guesses classified as contained, each against the question at which it is submitted.\<close>

definition contained_count :: "latlng list \<Rightarrow> nat" where
  "contained_count ps =
     length (filter (\<lambda>(i, p). pointInBounds p (bounds (LOCATIONS ! i))) (zip [0..<length ps] ps))"

declare digits.simps [simp del]

section \<open>Facts about comparisons\<close>

lemma js_ge_le: "js_ge x y = js_le y x"
  by (simp add: js_ge_def js_le_def)

lemma js_le_Fin [simp]: "js_le (Fin a) (Fin b) = (a \<le> b)"
  by (auto simp: js_le_def split: bool.splits)

lemma js_le_NaN [simp]: "js_le NaN y = False" "js_le x NaN = False"
  by (cases y; simp add: js_le_def) (cases x; simp add: js_le_def)

lemma Math_max_Fin [simp]: "Math_max (Fin a) (Fin b) = Fin (max a b)"
  by (auto simp: Math_max_def max_def split: bool.splits)

lemma Math_min_Fin [simp]: "Math_min (Fin a) (Fin b) = Fin (min a b)"
  by (auto simp: Math_min_def min_def split: bool.splits)

lemma Math_max_commute: "Math_max x y = Math_max y x"
  by (cases x; cases y; auto simp: Math_max_def split: bool.splits)

lemma Math_min_commute: "Math_min x y = Math_min y x"
  by (cases x; cases y; auto simp: Math_min_def split: bool.splits)

lemma Math_max_idem: "Math_max (Math_max x y) (Math_min x y) = Math_max x y"
  by (cases x; cases y; auto simp: Math_max_def Math_min_def split: bool.splits)

lemma Math_min_idem: "Math_min (Math_max x y) (Math_min x y) = Math_min x y"
  by (cases x; cases y; auto simp: Math_max_def Math_min_def split: bool.splits)

lemma isFinite_Fin: "isFinite x \<Longrightarrow> \<exists>a. x = Fin a"
  by (cases x) simp_all


section \<open>Facts about digit strings\<close>

lemma digit_val_digit_char: "d < 10 \<Longrightarrow> digit_val (digit_char d) = Some d"
proof -
  assume "d < 10"
  then have "d = 0 \<or> d = 1 \<or> d = 2 \<or> d = 3 \<or> d = 4 \<or> d = 5 \<or> d = 6 \<or> d = 7 \<or> d = 8 \<or> d = 9"
    by arith
  then show ?thesis
    by (elim disjE) (simp_all add: digit_val_def digit_char_def)
qed

lemma parse_digits_append:
  "parse_digits acc (xs @ ys) =
     (case parse_digits acc xs of None \<Rightarrow> None | Some a \<Rightarrow> parse_digits a ys)"
  by (induction xs arbitrary: acc) (simp_all split: option.splits)

lemma parse_digits_digits: "parse_digits 0 (digits n) = Some n"
proof (induction n rule: digits.induct)
  case (1 n)
  show ?case
  proof (cases "n < 10")
    case True
    then show ?thesis
      by (simp add: digits.simps [of n] digit_val_digit_char)
  next
    case False
    then have "parse_digits 0 (digits (n div 10)) = Some (n div 10)"
      using "1" by simp
    then show ?thesis
      using False by (simp add: digits.simps [of n] parse_digits_append digit_val_digit_char)
  qed
qed

lemma digits_not_Nil: "digits n \<noteq> []"
  by (simp add: digits.simps [of n])

lemma digits_no_minus: "digits n = c # cs \<Longrightarrow> c \<noteq> CHR ''-''"
proof
  assume d: "digits n = c # cs" and c: "c = CHR ''-''"
  have "parse_digits 0 (digits n) = None"
    by (simp add: d c digit_val_def)
  then show False
    by (simp add: parse_digits_digits)
qed

lemma integer_literal_String_js: "integer_literal (String_js s) = Some s"
proof (cases "s < 0")
  case True
  then show ?thesis
    by (simp add: integer_literal_def String_js_def digits_not_Nil parse_digits_digits)
next
  case False
  obtain c cs where d: "digits (nat s) = c # cs"
    using digits_not_Nil [of "nat s"] by (cases "digits (nat s)") auto
  have "parse_digits 0 (c # cs) = Some (nat s)"
    using parse_digits_digits [of "nat s"] by (simp add: d)
  then show ?thesis
    using False digits_no_minus [OF d] by (simp add: integer_literal_def String_js_def d)
qed

lemma Number_js_String_js: "\<bar>s\<bar> \<le> 2 ^ 53 \<Longrightarrow> Number_js ext (String_js s) = Fin (real_of_int s)"
  by (simp add: Number_js_def integer_literal_String_js)

lemma String_js_not_Nil: "String_js s \<noteq> []"
  by (simp add: String_js_def digits_not_Nil)

lemma getBestSeconds_setBestSeconds:
  "\<bar>s\<bar> \<le> 2 ^ 53 \<Longrightarrow> getBestSeconds ext (setBestSeconds s ls) = Some (Fin (real_of_int s))"
  by (simp add: getBestSeconds_def setBestSeconds_def String_js_not_Nil Number_js_String_js)

lemma length_digits_pos: "Suc 0 \<le> length (digits n)"
  by (simp add: digits.simps [of n])

lemma digits_small: "n < 10 \<Longrightarrow> digits n = [digit_char n]"
  by (simp add: digits.simps [of n])

lemma digits_two: "10 \<le> n \<Longrightarrow> n < 100 \<Longrightarrow> digits n = [digit_char (n div 10), digit_char (n mod 10)]"
  by (simp add: digits.simps [of n] digits_small)

lemma digits_long: "100 \<le> n \<Longrightarrow> 3 \<le> length (digits n)"
proof -
  assume n: "100 \<le> n"
  then have "10 \<le> n div 10" by simp
  then have "2 \<le> length (digits (n div 10))"
    using length_digits_pos [of "n div 10 div 10"] by (simp add: digits.simps [of "n div 10"])
  then show ?thesis
    using n by (simp add: digits.simps [of n])
qed

lemma pad_digits_two: "n < 100 \<Longrightarrow> padStart 2 (CHR ''0'') (digits n) = two_digits (int n)"
proof (cases "n < 10")
  case True
  then show ?thesis
    by (simp add: padStart_def digits_small two_digits_def digit_char_def numeral_2_eq_2)
next
  case False
  assume "n < 100"
  then show ?thesis
    using False by (simp add: padStart_def digits_two two_digits_def)
qed

lemma js_rem_nonneg: "0 \<le> a \<Longrightarrow> js_rem a 60 = a mod 60"
  by (cases "a = 0") (simp_all add: js_rem_def)

section \<open>Facts about the game\<close>

lemma length_LOCATIONS: "length LOCATIONS = 5"
  by (simp add: LOCATIONS_def)

lemma lookup_LOCATIONS_None: "i < 0 \<or> 5 \<le> i \<Longrightarrow> lookup LOCATIONS i = None"
  by (auto simp: lookup_def length_LOCATIONS)

lemma lookup_LOCATIONS_Some:
  "0 \<le> i \<Longrightarrow> i < 5 \<Longrightarrow> lookup LOCATIONS i = Some (LOCATIONS ! nat i)"
  by (simp add: lookup_def length_LOCATIONS)

lemma st_finishGame: "st (finishGame ext now w) = stopTimer (st w)"
  by (simp add: finishGame_def Let_def)

lemma handleAnswer_ignored: "i < 0 \<or> 5 \<le> i \<Longrightarrow> index (st w) = i \<Longrightarrow> handleAnswer ext p t w = w"
  by (simp add: handleAnswer_def lookup_LOCATIONS_None)

lemma index_handleAnswer:
  "0 \<le> index (st w) \<Longrightarrow> index (st w) < 5 \<Longrightarrow>
     index (st (handleAnswer ext p t w)) = index (st w) + 1"
  by (simp add: handleAnswer_def lookup_LOCATIONS_Some Let_def st_finishGame stopTimer_def)

lemma correct_handleAnswer:
  "0 \<le> index (st w) \<Longrightarrow> index (st w) < 5 \<Longrightarrow>
     correct (st (handleAnswer ext p t w)) =
       correct (st w) + (if pointInBounds p (bounds (LOCATIONS ! nat (index (st w)))) then 1 else 0)"
  by (simp add: handleAnswer_def lookup_LOCATIONS_Some Let_def st_finishGame stopTimer_def)

lemma submitAll_counts:
  "index (st w) = int k \<Longrightarrow> k + length gs \<le> 5 \<Longrightarrow>
     index (st (submitAll ext w gs)) = int (k + length gs) \<and>
     correct (st (submitAll ext w gs)) =
       correct (st w) +
       int (length (filter (\<lambda>(i, p). pointInBounds p (bounds (LOCATIONS ! i)))
                     (zip [k..<k + length gs] (map fst gs))))"
proof (induction gs arbitrary: w k)
  case Nil
  then show ?case by simp
next
  case (Cons g gs)
  obtain p t where g: "g = (p, t)" by (cases g)
  let ?w = "handleAnswer ext p t w"
  have k: "0 \<le> index (st w)" "index (st w) < 5"
    using Cons.prems by simp_all
  have i: "index (st ?w) = int (Suc k)"
    using index_handleAnswer [OF k] Cons.prems by simp
  have c: "correct (st ?w) =
       correct (st w) + (if pointInBounds p (bounds (LOCATIONS ! k)) then 1 else 0)"
    using correct_handleAnswer [OF k] Cons.prems by simp
  have "Suc k + length gs \<le> 5"
    using Cons.prems by simp
  note ih = Cons.IH [OF i this]
  have z: "[k..<Suc (k + length gs)] = k # [Suc k..<Suc (k + length gs)]"
    by (rule upt_conv_Cons) simp
  show ?case
    using ih by (simp add: g z c del: upt_Suc)
qed

lemma st_resetGame:
  "st (resetGame now h w) =
     \<lparr> index = 0, correct = 0, startedAtMs = Some now, timerId = Some h \<rparr>"
  by (simp add: resetGame_def startTimer_def stopTimer_def)

lemma submitAll_ignored: "5 \<le> index (st w) \<Longrightarrow> submitAll ext w gs = w"
proof (induction gs)
  case Nil
  then show ?case by simp
next
  case (Cons g gs)
  obtain p t where g: "g = (p, t)" by (cases g)
  have "handleAnswer ext p t w = w"
    using Cons.prems handleAnswer_ignored by blast
  then show ?case
    using Cons by (simp add: g)
qed

lemma state_inv_handleAnswer: "state_inv (st w) \<Longrightarrow> state_inv (st (handleAnswer ext p t w))"
proof (cases "0 \<le> index (st w) \<and> index (st w) < 5")
  case True
  assume "state_inv (st w)"
  then show ?thesis
    using True index_handleAnswer [of w ext p t] correct_handleAnswer [of w ext p t]
    by (simp add: state_inv_def TOTAL_QUESTIONS_def)
next
  case False
  assume "state_inv (st w)"
  moreover have "handleAnswer ext p t w = w"
    using False handleAnswer_ignored [of "index (st w)" w ext p t] by auto
  ultimately show ?thesis by simp
qed

lemma state_inv_resetGame: "state_inv (st (resetGame now h w))"
  by (simp add: st_resetGame state_inv_def TOTAL_QUESTIONS_def)

lemma state_inv_step: "state_inv (st w) \<Longrightarrow> state_inv (st (step ext w e))"
  by (cases e) (simp_all add: state_inv_resetGame state_inv_handleAnswer)

lemma state_inv_run: "state_inv (st w) \<Longrightarrow> state_inv (st (run ext w es))"
  unfolding run_def by (induction es arbitrary: w) (simp_all add: state_inv_step)

lemma getBestSeconds_finite: "getBestSeconds ext ls = Some b \<Longrightarrow> \<exists>r. b = Fin r"
  by (auto simp: getBestSeconds_def Let_def isFinite_Fin split: option.splits if_splits)

lemma localStorage_finishGame:
  "localStorage (finishGame ext now w) =
     (case getBestSeconds ext (localStorage w) of
        None \<Rightarrow> setBestSeconds (elapsedSeconds now (st w)) (localStorage w)
      | Some b \<Rightarrow>
          if IsLessThan (Fin (real_of_int (elapsedSeconds now (st w)))) b = Some True
          then setBestSeconds (elapsedSeconds now (st w)) (localStorage w)
          else localStorage w)"
  by (simp add: finishGame_def Let_def elapsedSeconds_def stopTimer_def split: option.splits)

lemma localStorage_finishGame_cong:
  "startedAtMs (st w') = startedAtMs (st w) \<Longrightarrow> localStorage w' = localStorage w \<Longrightarrow>
     localStorage (finishGame ext now w') = localStorage (finishGame ext now w)"
proof -
  assume a: "startedAtMs (st w') = startedAtMs (st w)" and b: "localStorage w' = localStorage w"
  have e: "elapsedSeconds now (st w') = elapsedSeconds now (st w)"
    by (simp add: elapsedSeconds_def a)
  show ?thesis
    by (simp add: localStorage_finishGame e b cong: option.case_cong if_cong)
qed

lemma localStorage_handleAnswer_last:
  "index (st w) = 4 \<Longrightarrow>
     localStorage (handleAnswer ext p now w) = localStorage (finishGame ext now w)"
  by (auto simp: handleAnswer_def lookup_LOCATIONS_Some Let_def TOTAL_QUESTIONS_def
      intro!: localStorage_finishGame_cong)

lemma localStorage_handleAnswer_other:
  "index (st w) \<noteq> 4 \<Longrightarrow> localStorage (handleAnswer ext p now w) = localStorage w"
proof (cases "0 \<le> index (st w) \<and> index (st w) < 5")
  case True
  assume "index (st w) \<noteq> 4"
  then show ?thesis
    using True by (simp add: handleAnswer_def lookup_LOCATIONS_Some Let_def TOTAL_QUESTIONS_def)
next
  case False
  then have "handleAnswer ext p now w = w"
    using handleAnswer_ignored [of "index (st w)" w ext p now] by auto
  then show ?thesis by simp
qed

section \<open>Containment\<close>

text \<open>
  C2. For every point and every box, \<open>pointInBounds\<close> holds exactly when, for the normalized
  box, south \<open>\<le>\<close> latitude \<open>\<le>\<close> north and west \<open>\<le>\<close> longitude \<open>\<le>\<close> east, the four
  comparisons being those of the language. On finite coordinates these are the inclusive
  comparisons of the reals against the smaller and the larger of each pair, so the corners of
  the normalized box, which lie on its four edges, are inside. In the box
  north 10, south 5, east -100, west -105 the point (7, -102) is inside and (7, -99) is not.
\<close>

theorem pointInBounds_inclusive:
  "(pointInBounds p b \<longleftrightarrow>
      js_le (south (normalizeBounds b)) (ToNumber (lat p)) \<and>
      js_le (ToNumber (lat p)) (north (normalizeBounds b)) \<and>
      js_le (west (normalizeBounds b)) (ToNumber (lng p)) \<and>
      js_le (ToNumber (lng p)) (east (normalizeBounds b)))
   \<and> (pointInBounds \<lparr> lat = JNum (Fin y), lng = JNum (Fin x) \<rparr>
         \<lparr> north = Fin n, south = Fin s, east = Fin e, west = Fin w \<rparr> \<longleftrightarrow>
       min n s \<le> y \<and> y \<le> max n s \<and> min e w \<le> x \<and> x \<le> max e w)
   \<and> pointInBounds \<lparr> lat = JNum (Fin (max n s)), lng = JNum (Fin (min e w)) \<rparr>
         \<lparr> north = Fin n, south = Fin s, east = Fin e, west = Fin w \<rparr>
   \<and> pointInBounds \<lparr> lat = JNum (Fin (min n s)), lng = JNum (Fin (max e w)) \<rparr>
         \<lparr> north = Fin n, south = Fin s, east = Fin e, west = Fin w \<rparr>
   \<and> pointInBounds \<lparr> lat = JNum (Fin 7), lng = JNum (Fin (- 102)) \<rparr>
         \<lparr> north = Fin 10, south = Fin 5, east = Fin (- 100), west = Fin (- 105) \<rparr>
   \<and> \<not> pointInBounds \<lparr> lat = JNum (Fin 7), lng = JNum (Fin (- 99)) \<rparr>
         \<lparr> north = Fin 10, south = Fin 5, east = Fin (- 100), west = Fin (- 105) \<rparr>"
proof -
  have gen: "pointInBounds p b \<longleftrightarrow>
      js_le (south (normalizeBounds b)) (ToNumber (lat p)) \<and>
      js_le (ToNumber (lat p)) (north (normalizeBounds b)) \<and>
      js_le (west (normalizeBounds b)) (ToNumber (lng p)) \<and>
      js_le (ToNumber (lng p)) (east (normalizeBounds b))"
    by (auto simp: pointInBounds_def Let_def js_ge_le)
  have fin: "pointInBounds \<lparr> lat = JNum (Fin y'), lng = JNum (Fin x') \<rparr>
         \<lparr> north = Fin n, south = Fin s, east = Fin e, west = Fin w \<rparr> \<longleftrightarrow>
       min n s \<le> y' \<and> y' \<le> max n s \<and> min e w \<le> x' \<and> x' \<le> max e w" for x' y'
    by (auto simp: pointInBounds_def Let_def js_ge_le normalizeBounds_def)
  have sc: "pointInBounds \<lparr> lat = JNum (Fin 7), lng = JNum (Fin (- 102)) \<rparr>
         \<lparr> north = Fin 10, south = Fin 5, east = Fin (- 100), west = Fin (- 105) \<rparr>"
      "\<not> pointInBounds \<lparr> lat = JNum (Fin 7), lng = JNum (Fin (- 99)) \<rparr>
         \<lparr> north = Fin 10, south = Fin 5, east = Fin (- 100), west = Fin (- 105) \<rparr>"
    by (simp_all add: pointInBounds_def Let_def js_ge_le normalizeBounds_def)
  show ?thesis
    using gen sc by (simp add: fin min_le_iff_disj)
qed

text \<open>
  C7. For every box with four finite coordinates, \<open>normalizeBounds\<close> yields a box, again
  finite, with north \<open>\<ge>\<close> south and east \<open>\<ge>\<close> west, and normalizing it again changes nothing.
\<close>

theorem normalizeBounds_ordered_idempotent:
  assumes "finite_box b"
  shows "js_ge (north (normalizeBounds b)) (south (normalizeBounds b))
       \<and> js_ge (east (normalizeBounds b)) (west (normalizeBounds b))
       \<and> finite_box (normalizeBounds b)
       \<and> normalizeBounds (normalizeBounds b) = normalizeBounds b"
proof -
  obtain n s e w where c: "north b = Fin n" "south b = Fin s" "east b = Fin e" "west b = Fin w"
    using assms isFinite_Fin [of "north b"] isFinite_Fin [of "south b"]
      isFinite_Fin [of "east b"] isFinite_Fin [of "west b"]
    unfolding finite_box_def by blast
  have idem: "normalizeBounds (normalizeBounds b) = normalizeBounds b"
    by (simp add: normalizeBounds_def Math_max_idem Math_min_idem)
  show ?thesis
    using idem by (simp add: normalizeBounds_def finite_box_def js_ge_le c min_le_iff_disj)
qed

theorem normalizeBounds_ordered_idempotent_witness:
  "finite_box \<lparr> north = Fin 5, south = Fin 10, east = Fin (- 105), west = Fin (- 100) \<rparr>
   \<and> normalizeBounds \<lparr> north = Fin 5, south = Fin 10, east = Fin (- 105), west = Fin (- 100) \<rparr>
       = \<lparr> north = Fin 10, south = Fin 5, east = Fin (- 100), west = Fin (- 105) \<rparr>
   \<and> normalizeBounds (normalizeBounds \<lparr> north = Fin 5, south = Fin 10, east = Fin (- 105), west = Fin (- 100) \<rparr>)
       = normalizeBounds \<lparr> north = Fin 5, south = Fin 10, east = Fin (- 105), west = Fin (- 100) \<rparr>"
proof -
  have h: "finite_box \<lparr> north = Fin 5, south = Fin 10, east = Fin (- 105), west = Fin (- 100) \<rparr>"
    by (simp add: finite_box_def)
  show ?thesis
    using h normalizeBounds_ordered_idempotent [OF h] by (simp add: normalizeBounds_def)
qed

text \<open>
  C8. For every point and every box, \<open>pointInBounds\<close> gives the same answer when north and
  south are exchanged, and when east and west are exchanged; the point (7, -102) is inside the
  box given reversed as north 5, south 10, east -105, west -100.
\<close>

theorem pointInBounds_swap_invariant:
  "pointInBounds p (b\<lparr> north := south b, south := north b \<rparr>) = pointInBounds p b
   \<and> pointInBounds p (b\<lparr> east := west b, west := east b \<rparr>) = pointInBounds p b
   \<and> pointInBounds \<lparr> lat = JNum (Fin 7), lng = JNum (Fin (- 102)) \<rparr>
         \<lparr> north = Fin 5, south = Fin 10, east = Fin (- 105), west = Fin (- 100) \<rparr>"
proof -
  have ns: "normalizeBounds (b\<lparr> north := south b, south := north b \<rparr>) = normalizeBounds b"
    by (simp add: normalizeBounds_def Math_max_commute [of "south b"] Math_min_commute [of "south b"])
  have ew: "normalizeBounds (b\<lparr> east := west b, west := east b \<rparr>) = normalizeBounds b"
    by (simp add: normalizeBounds_def Math_max_commute [of "west b"] Math_min_commute [of "west b"])
  have sc: "pointInBounds \<lparr> lat = JNum (Fin 7), lng = JNum (Fin (- 102)) \<rparr>
         \<lparr> north = Fin 5, south = Fin 10, east = Fin (- 105), west = Fin (- 100) \<rparr>"
    by (simp add: pointInBounds_def Let_def js_ge_le normalizeBounds_def)
  show ?thesis
    using sc by (simp add: pointInBounds_def ns ew)
qed




section \<open>Best time and clock display\<close>

text \<open>
  C10. For every non-negative integer \<open>s\<close> that a number of the language holds exactly
  (up to \<open>2\<^sup>5\<^sup>3\<close>), reading the best time right after writing \<open>s\<close> returns \<open>s\<close>: the
  stored string is not empty, also for \<open>s = 0\<close>, and converts back to the same integer,
  whatever else the storage holds.
\<close>

theorem best_seconds_roundtrip:
  assumes "0 \<le> s" and "s \<le> 2 ^ 53"
  shows "getBestSeconds ext (setBestSeconds s ls) = Some (Fin (real_of_int s))"
  using assms by (intro getBestSeconds_setBestSeconds) simp

theorem best_seconds_roundtrip_witness:
  "getBestSeconds (\<lambda>raw. NaN) (setBestSeconds 0 Map.empty) = Some (Fin 0)
   \<and> setBestSeconds 0 Map.empty BEST_KEY = Some ''0''
   \<and> getBestSeconds (\<lambda>raw. NaN) (setBestSeconds 83 Map.empty) = Some (Fin 83)
   \<and> setBestSeconds 83 Map.empty BEST_KEY = Some ''83''"
  using best_seconds_roundtrip [of 0 "\<lambda>raw. NaN" Map.empty]
        best_seconds_roundtrip [of 83 "\<lambda>raw. NaN" Map.empty]
  by (simp add: setBestSeconds_def String_js_def digits.simps digit_char_def)

text \<open>
  C4, as the specification states it, fails: the minutes do not wrap at 60. One hour is
  rendered as 60 minutes.
\<close>

theorem formatTime_wrap_counterexample:
  "formatTime 3600 = ''60:00'' \<and> format_spec 3600 = ''00:00'' \<and> formatTime 3600 \<noteq> format_spec 3600"
  by (simp add: formatTime_def format_spec_def two_digits_def padStart_def String_js_def js_rem_def
      digits.simps digit_char_def)

text \<open>
  C4, amended. For every non-negative integer number of seconds up to \<open>2\<^sup>5\<^sup>3\<close> (the
  integers that a number holds exactly), \<open>formatTime\<close> renders the
  minutes, which are the seconds divided by 60 and are not reduced modulo 60, padded with a
  zero to at least two digits, then a colon, then the seconds modulo 60 as exactly two digits.
  Below 6000 seconds the minutes are exactly two digits too; from 6000 seconds on the result is
  longer than five characters. \<open>formatTime 65\<close> is 01:05, \<open>formatTime 0\<close> is 00:00 and
  \<open>formatTime 599\<close> is 09:59.
\<close>

theorem formatTime_minutes_seconds:
  assumes "0 \<le> t" and "t \<le> 2 ^ 53"
  shows "formatTime t =
           padStart 2 (CHR ''0'') (digits (nat (t div 60))) @ '':'' @ two_digits (t mod 60)
       \<and> (t < 6000 \<longrightarrow> formatTime t = two_digits (t div 60) @ '':'' @ two_digits (t mod 60))
       \<and> (6000 \<le> t \<longrightarrow> 5 < length (formatTime t))
       \<and> formatTime 65 = ''01:05'' \<and> formatTime 0 = ''00:00'' \<and> formatTime 599 = ''09:59''"
proof -
  have m: "0 \<le> t div 60" using assms by simp
  have s: "0 \<le> t mod 60" "t mod 60 < 60" by simp_all
  have str: "padStart 2 (CHR ''0'') (String_js r) = two_digits r" if "0 \<le> r" "r < 60" for r
    using that pad_digits_two [of "nat r"] by (simp add: String_js_def)
  have ss: "padStart 2 (CHR ''0'') (String_js (js_rem t 60)) = two_digits (t mod 60)"
    using str [OF s] assms by (simp add: js_rem_nonneg)
  have gen: "formatTime t =
           padStart 2 (CHR ''0'') (digits (nat (t div 60))) @ '':'' @ two_digits (t mod 60)"
    using m ss by (simp add: formatTime_def String_js_def)
  have short: "formatTime t = two_digits (t div 60) @ '':'' @ two_digits (t mod 60)" if "t < 6000"
  proof -
    have "nat (t div 60) < 100" using that assms by simp
    then show ?thesis
      using pad_digits_two [of "nat (t div 60)"] m by (simp add: gen)
  qed
  have long: "5 < length (formatTime t)" if "6000 \<le> t"
  proof -
    have "100 \<le> nat (t div 60)" using that by simp
    then have "3 \<le> length (digits (nat (t div 60)))" by (rule digits_long)
    then show ?thesis
      by (simp add: gen padStart_def two_digits_def)
  qed
  have ex: "formatTime 65 = ''01:05''" "formatTime 0 = ''00:00''" "formatTime 599 = ''09:59''"
    by (simp_all add: formatTime_def padStart_def String_js_def js_rem_def digits.simps digit_char_def)
  show ?thesis
    using gen short long ex by blast
qed

theorem formatTime_minutes_seconds_witness:
  "formatTime 3725 = ''62:05'' \<and> formatTime 6000 = ''100:00'' \<and> 5 < length (formatTime 6000)"
  using formatTime_minutes_seconds [of 3725] formatTime_minutes_seconds [of 6000]
  by (simp add: padStart_def two_digits_def digits.simps digit_char_def)

text \<open>
  C3. When a round finishes, which is what the guess at the last question does and no other
  guess, the stored best time is overwritten with the elapsed seconds of the run exactly when
  \<open>getBestSeconds\<close> finds no best time or the elapsed seconds are strictly less than the one it
  finds (always a finite number). With elapsed seconds equal to or greater than the stored
  best the storage is left as it is, and a finish with nothing stored always sets it.
\<close>

theorem finishGame_best_time:
  "(let seconds = elapsedSeconds now (st w);
        before = localStorage w;
        after = localStorage (finishGame ext now w)
    in (getBestSeconds ext before = None \<longrightarrow> after = before(BEST_KEY \<mapsto> String_js seconds))
     \<and> (\<forall>b. getBestSeconds ext before = Some b \<longrightarrow>
           (\<exists>r. b = Fin r \<and>
                (real_of_int seconds < r \<longrightarrow> after = before(BEST_KEY \<mapsto> String_js seconds)) \<and>
                (r \<le> real_of_int seconds \<longrightarrow> after = before)))
     \<and> (before BEST_KEY = None \<longrightarrow> after BEST_KEY = Some (String_js seconds)))
   \<and> (index (st w) = TOTAL_QUESTIONS - 1 \<longrightarrow>
        localStorage (handleAnswer ext p now w) = localStorage (finishGame ext now w))
   \<and> (index (st w) \<noteq> TOTAL_QUESTIONS - 1 \<longrightarrow>
        localStorage (handleAnswer ext p now w) = localStorage w)"
proof -
  let ?s = "elapsedSeconds now (st w)"
  let ?ls = "localStorage w"
  let ?ls' = "localStorage (finishGame ext now w)"
  have none: "?ls' = ?ls(BEST_KEY \<mapsto> String_js ?s)" if "getBestSeconds ext ?ls = None"
    using that by (simp add: localStorage_finishGame setBestSeconds_def)
  have some: "\<exists>r. b = Fin r \<and>
                (real_of_int ?s < r \<longrightarrow> ?ls' = ?ls(BEST_KEY \<mapsto> String_js ?s)) \<and>
                (r \<le> real_of_int ?s \<longrightarrow> ?ls' = ?ls)"
    if b: "getBestSeconds ext ?ls = Some b" for b
  proof -
    obtain r where r: "b = Fin r"
      using getBestSeconds_finite [OF b] by blast
    show ?thesis
      using b by (simp add: r localStorage_finishGame setBestSeconds_def)
  qed
  have first: "?ls' BEST_KEY = Some (String_js ?s)" if "?ls BEST_KEY = None"
  proof -
    have "getBestSeconds ext ?ls = None"
      using that by (simp add: getBestSeconds_def)
    then show ?thesis
      by (simp add: none)
  qed
  have last: "localStorage (handleAnswer ext p now w) = ?ls'" if "index (st w) = TOTAL_QUESTIONS - 1"
    using that by (simp add: localStorage_handleAnswer_last TOTAL_QUESTIONS_def)
  have other: "localStorage (handleAnswer ext p now w) = ?ls" if "index (st w) \<noteq> TOTAL_QUESTIONS - 1"
    using that by (simp add: localStorage_handleAnswer_other TOTAL_QUESTIONS_def)
  show ?thesis
    unfolding Let_def using none some first last other by blast
qed

theorem finishGame_best_time_witness:
  "localStorage (finishGame (\<lambda>raw. NaN) 43500
      \<lparr> st = \<lparr> index = 5, correct = 3, startedAtMs = Some 1000, timerId = Some 1 \<rparr>,
        localStorage = Map.empty \<rparr>) BEST_KEY = Some ''42''
   \<and> localStorage (finishGame (\<lambda>raw. NaN) 43500
      \<lparr> st = \<lparr> index = 5, correct = 3, startedAtMs = Some 1000, timerId = Some 1 \<rparr>,
        localStorage = [BEST_KEY \<mapsto> ''42''] \<rparr>) BEST_KEY = Some ''42''
   \<and> localStorage (finishGame (\<lambda>raw. NaN) 42999
      \<lparr> st = \<lparr> index = 5, correct = 3, startedAtMs = Some 1000, timerId = Some 1 \<rparr>,
        localStorage = [BEST_KEY \<mapsto> ''42''] \<rparr>) BEST_KEY = Some ''41''
   \<and> localStorage (finishGame (\<lambda>raw. NaN) 44000
      \<lparr> st = \<lparr> index = 5, correct = 3, startedAtMs = Some 1000, timerId = Some 1 \<rparr>,
        localStorage = [BEST_KEY \<mapsto> ''42''] \<rparr>) BEST_KEY = Some ''42''
   \<and> localStorage (handleAnswer (\<lambda>raw. NaN) \<lparr> lat = JNum (Fin 0), lng = JNum (Fin 0) \<rparr> 42999
      \<lparr> st = \<lparr> index = 4, correct = 3, startedAtMs = Some 1000, timerId = Some 1 \<rparr>,
        localStorage = [BEST_KEY \<mapsto> ''42''] \<rparr>) BEST_KEY = Some ''41''
   \<and> localStorage (handleAnswer (\<lambda>raw. NaN) \<lparr> lat = JNum (Fin 0), lng = JNum (Fin 0) \<rparr> 42999
      \<lparr> st = \<lparr> index = 3, correct = 3, startedAtMs = Some 1000, timerId = Some 1 \<rparr>,
        localStorage = [BEST_KEY \<mapsto> ''42''] \<rparr>) BEST_KEY = Some ''42''"
  using finishGame_best_time [of 43500
      "\<lparr> st = \<lparr> index = 5, correct = 3, startedAtMs = Some 1000, timerId = Some 1 \<rparr>,
        localStorage = Map.empty \<rparr>" "\<lambda>raw. NaN"]
    finishGame_best_time [of 43500
      "\<lparr> st = \<lparr> index = 5, correct = 3, startedAtMs = Some 1000, timerId = Some 1 \<rparr>,
        localStorage = [BEST_KEY \<mapsto> ''42''] \<rparr>" "\<lambda>raw. NaN"]
    finishGame_best_time [of 42999
      "\<lparr> st = \<lparr> index = 5, correct = 3, startedAtMs = Some 1000, timerId = Some 1 \<rparr>,
        localStorage = [BEST_KEY \<mapsto> ''42''] \<rparr>" "\<lambda>raw. NaN"]
    finishGame_best_time [of 44000
      "\<lparr> st = \<lparr> index = 5, correct = 3, startedAtMs = Some 1000, timerId = Some 1 \<rparr>,
        localStorage = [BEST_KEY \<mapsto> ''42''] \<rparr>" "\<lambda>raw. NaN"]
    finishGame_best_time [of 42999
      "\<lparr> st = \<lparr> index = 4, correct = 3, startedAtMs = Some 1000, timerId = Some 1 \<rparr>,
        localStorage = [BEST_KEY \<mapsto> ''42''] \<rparr>" "\<lambda>raw. NaN"
      "\<lparr> lat = JNum (Fin 0), lng = JNum (Fin 0) \<rparr>"]
    finishGame_best_time [of 42999
      "\<lparr> st = \<lparr> index = 3, correct = 3, startedAtMs = Some 1000, timerId = Some 1 \<rparr>,
        localStorage = [BEST_KEY \<mapsto> ''42''] \<rparr>" "\<lambda>raw. NaN"
      "\<lparr> lat = JNum (Fin 0), lng = JNum (Fin 0) \<rparr>"]
  by (simp add: Let_def elapsedSeconds_def getBestSeconds_def Number_js_def integer_literal_def
      digit_val_def String_js_def digits.simps digit_char_def BEST_KEY_def TOTAL_QUESTIONS_def)

section \<open>The round\<close>

text \<open>
  C1. For every sequence of exactly 5 guesses submitted after a reset, the final value of
  \<open>correct\<close> is the number of guesses that \<open>pointInBounds\<close> places inside the bounds of
  the location of the question at which the guess was submitted, and it lies between 0 and 5.
\<close>

theorem round_score:
  assumes "length gs = 5"
  shows "correct (st (submitAll ext (resetGame now h w) gs)) = int (contained_count (map fst gs))
       \<and> 0 \<le> correct (st (submitAll ext (resetGame now h w) gs))
       \<and> correct (st (submitAll ext (resetGame now h w) gs)) \<le> 5"
proof -
  have i: "index (st (resetGame now h w)) = int 0"
    by (simp add: st_resetGame)
  have "0 + length gs \<le> 5" using assms by simp
  from submitAll_counts [OF i this]
  have c: "correct (st (submitAll ext (resetGame now h w) gs)) = int (contained_count (map fst gs))"
    by (simp add: st_resetGame contained_count_def)
  have "contained_count (map fst gs) \<le> length (zip [0..<length (map fst gs)] (map fst gs))"
    unfolding contained_count_def by (rule length_filter_le)
  then have "contained_count (map fst gs) \<le> 5"
    using assms by simp
  then show ?thesis
    using c by simp
qed


theorem round_score_witness:
  "correct (st (submitAll (\<lambda>raw. NaN)
      (resetGame 1000 1 \<lparr> st = initial_state, localStorage = Map.empty \<rparr>)
      [ (\<lparr> lat = JNum (Fin 34.2441), lng = JNum (Fin (- 118.5335)) \<rparr>, 2000),
        (\<lparr> lat = JNum (Fin 34.2441), lng = JNum (Fin (- 118.5335)) \<rparr>, 3000),
        (\<lparr> lat = JNum (Fin (2409979461922405 / 2 ^ 46)),
           lng = JNum (Fin (- (4170308625884617 / 2 ^ 45))) \<rparr>, 4000),
        (\<lparr> lat = JUndefined, lng = JNum NaN \<rparr>, 5000),
        (\<lparr> lat = JNum (Fin 34.242), lng = JNum (Fin (- 118.5305)) \<rparr>, 6000) ])) = 3"
  using round_score [of
      "[ (\<lparr> lat = JNum (Fin 34.2441), lng = JNum (Fin (- 118.5335)) \<rparr>, 2000),
        (\<lparr> lat = JNum (Fin 34.2441), lng = JNum (Fin (- 118.5335)) \<rparr>, 3000),
        (\<lparr> lat = JNum (Fin (2409979461922405 / 2 ^ 46)),
           lng = JNum (Fin (- (4170308625884617 / 2 ^ 45))) \<rparr>, 4000),
        (\<lparr> lat = JUndefined, lng = JNum NaN \<rparr>, 5000),
        (\<lparr> lat = JNum (Fin 34.242), lng = JNum (Fin (- 118.5305)) \<rparr>, 6000) ]"
      "\<lambda>raw. NaN" 1000 1 "\<lparr> st = initial_state, localStorage = Map.empty \<rparr>"]
  by (simp add: contained_count_def LOCATIONS_def pointInBounds_def normalizeBounds_def
      js_ge_le upt_conv_Cons)

text \<open>
  C5. After exactly 5 guesses have been submitted in a round, the index is
  \<open>TOTAL_QUESTIONS\<close>, so the round is finished, and a further guess, or any sequence of
  further guesses, returns the whole world (counters, timer fields and storage) unchanged.
  After fewer than 5 guesses the round is still running.
\<close>

theorem finished_ignores_guesses:
  assumes "length gs = 5"
  shows "phase_of (st (submitAll ext (resetGame now h w) gs)) = Finished
       \<and> index (st (submitAll ext (resetGame now h w) gs)) = TOTAL_QUESTIONS
       \<and> handleAnswer ext p t (submitAll ext (resetGame now h w) gs)
           = submitAll ext (resetGame now h w) gs
       \<and> submitAll ext (submitAll ext (resetGame now h w) gs) further
           = submitAll ext (resetGame now h w) gs
       \<and> (length fewer < 5 \<longrightarrow>
            phase_of (st (submitAll ext (resetGame now h w) fewer)) = Running)"
proof -
  let ?w = "submitAll ext (resetGame now h w) gs"
  have i: "index (st (resetGame now h w)) = int 0"
    by (simp add: st_resetGame)
  have "0 + length gs \<le> 5" using assms by simp
  from submitAll_counts [OF i this]
  have five: "index (st ?w) = 5"
    using assms by simp
  then have le: "5 \<le> index (st ?w)" by simp
  have one: "handleAnswer ext p t ?w = ?w"
    using le handleAnswer_ignored by blast
  have rest: "submitAll ext ?w further = ?w"
    using le by (rule submitAll_ignored)
  have running: "phase_of (st (submitAll ext (resetGame now h w) fewer)) = Running"
    if "length fewer < 5"
  proof -
    have "0 + length fewer \<le> 5" using that by simp
    from submitAll_counts [OF i this] that show ?thesis
      by (simp add: phase_of_def TOTAL_QUESTIONS_def)
  qed
  show ?thesis
    using five one rest running by (simp add: phase_of_def TOTAL_QUESTIONS_def)
qed

theorem finished_ignores_guesses_witness:
  "phase_of (st (submitAll (\<lambda>raw. NaN)
      (resetGame 1000 1 \<lparr> st = initial_state, localStorage = Map.empty \<rparr>)
      (replicate 5 (\<lparr> lat = JNum (Fin 34.2441), lng = JNum (Fin (- 118.5335)) \<rparr>, 2000)))) = Finished
   \<and> phase_of (st (submitAll (\<lambda>raw. NaN)
      (resetGame 1000 1 \<lparr> st = initial_state, localStorage = Map.empty \<rparr>)
      (replicate 4 (\<lparr> lat = JNum (Fin 34.2441), lng = JNum (Fin (- 118.5335)) \<rparr>, 2000)))) = Running"
  using finished_ignores_guesses [where
      gs = "replicate 5 (\<lparr> lat = JNum (Fin 34.2441), lng = JNum (Fin (- 118.5335)) \<rparr>, 2000)"
      and fewer = "replicate 4 (\<lparr> lat = JNum (Fin 34.2441), lng = JNum (Fin (- 118.5335)) \<rparr>, 2000)"
      and ext = "\<lambda>raw. NaN" and now = 1000 and h = 1
      and w = "\<lparr> st = initial_state, localStorage = Map.empty \<rparr>"]
  by simp

text \<open>
  C6. The invariant \<open>0 \<le> correct \<le> index \<le> TOTAL_QUESTIONS\<close> holds in the initial state
  and after every reset, is preserved by every guess, and so by every sequence of resets and
  guesses in any order.
\<close>

theorem state_inv_invariant:
  "state_inv initial_state
   \<and> state_inv (st (resetGame now h w))
   \<and> (state_inv (st w) \<longrightarrow> state_inv (st (handleAnswer ext p t w)))
   \<and> (state_inv (st w) \<longrightarrow> state_inv (st (run ext w es)))
   \<and> state_inv (st (run ext (resetGame now h w) es))"
proof -
  have "state_inv initial_state"
    by (simp add: state_inv_def initial_state_def TOTAL_QUESTIONS_def)
  then show ?thesis
    using state_inv_resetGame state_inv_handleAnswer state_inv_run by blast
qed

theorem state_inv_invariant_witness:
  "state_inv (st \<lparr> st = initial_state, localStorage = Map.empty \<rparr>)
   \<and> state_inv (st (run (\<lambda>raw. NaN) \<lparr> st = initial_state, localStorage = Map.empty \<rparr>
        [ Guess \<lparr> lat = JNum (Fin 34.2441), lng = JNum (Fin (- 118.5335)) \<rparr> 2000,
          Reset 3000 2,
          Guess \<lparr> lat = JNum (Fin 0), lng = JNum (Fin 0) \<rparr> 4000 ]))
   \<and> state_inv (st (handleAnswer (\<lambda>raw. NaN)
        \<lparr> lat = JNum (Fin 34.2441), lng = JNum (Fin (- 118.5335)) \<rparr> 2000
        \<lparr> st = initial_state, localStorage = Map.empty \<rparr>))"
proof -
  have h: "state_inv (st \<lparr> st = initial_state, localStorage = Map.empty \<rparr>)"
    by (simp add: state_inv_def initial_state_def TOTAL_QUESTIONS_def)
  show ?thesis
    using h state_inv_invariant [of 0 0 "\<lparr> st = initial_state, localStorage = Map.empty \<rparr>"
        "\<lambda>raw. NaN" "\<lparr> lat = JNum (Fin 34.2441), lng = JNum (Fin (- 118.5335)) \<rparr>" 2000
        "[ Guess \<lparr> lat = JNum (Fin 34.2441), lng = JNum (Fin (- 118.5335)) \<rparr> 2000,
          Reset 3000 2,
          Guess \<lparr> lat = JNum (Fin 0), lng = JNum (Fin 0) \<rparr> 4000 ]"]
    by simp
qed

end
